theory Spec2Isabelle
  imports Complex_Main "HOL-Library.Word" "HOL-Library.Log_Nat"
begin

section \<open>Data model of \<open>utils/show.py\<close>\<close>

text \<open>
  The script works on numpy arrays. A position array of shape \<open>[T, V, 3]\<close> is a list of
  frames, a frame a list of vertices, a vertex a triple (axis 0, axis 1, axis 2); axis 1
  is the vertical one. A finite floating point number is the rational number it stands
  for. The definitions of this section compute on these numbers exactly; the section on
  binary64 arithmetic gives the same functions with the rounding of float64.

  Python exceptions are values of \<open>error\<close>; a function that can raise returns
  \<open>error + 'a\<close>, with \<open>Inl\<close> for the exception.
\<close>

datatype error = IndexError | ValueError | KeyError string

type_synonym vertex = "rat \<times> rat \<times> rat"
type_synonym frames = "vertex list list"

definition axis0 :: "vertex \<Rightarrow> rat" where
  "axis0 v = fst v"

definition axis1 :: "vertex \<Rightarrow> rat" where
  "axis1 v = fst (snd v)"

definition axis2 :: "vertex \<Rightarrow> rat" where
  "axis2 v = snd (snd v)"

text \<open>\<open>a.min()\<close> of numpy: the least element, \<open>ValueError\<close> on a zero-size array.\<close>

fun array_min :: "rat list \<Rightarrow> error + rat" where
  "array_min [] = Inl ValueError"
| "array_min (x # xs) = Inr (fold min xs x)"

text \<open>\<open>cloth_pos[0, :, 1].min()\<close>: \<open>IndexError\<close> when there is no frame 0.\<close>

definition frame0_min :: "frames \<Rightarrow> error + rat" where
  "frame0_min cloth_pos =
     (case cloth_pos of
        [] \<Rightarrow> Inl IndexError
      | f0 # _ \<Rightarrow> array_min (map axis1 f0))"

text \<open>\<open>obstacle_pos[:, :, 1].min()\<close>: over every frame and every vertex.\<close>

definition all_frames_min :: "frames \<Rightarrow> error + rat" where
  "all_frames_min obstacle_pos = array_min (concat (map (map axis1) obstacle_pos))"

text \<open>The three in-place updates \<open>a[..., 1] -= m\<close>, \<open>a[..., 0] += x\<close>, \<open>a[..., 2] += y\<close>.\<close>

definition sub_axis1 :: "rat \<Rightarrow> frames \<Rightarrow> frames" where
  "sub_axis1 m a = map (map (\<lambda>(x, y, z). (x, y - m, z))) a"

definition add_axis0 :: "rat \<Rightarrow> frames \<Rightarrow> frames" where
  "add_axis0 s a = map (map (\<lambda>(x, y, z). (x + s, y, z))) a"

definition add_axis2 :: "rat \<Rightarrow> frames \<Rightarrow> frames" where
  "add_axis2 s a = map (map (\<lambda>(x, y, z). (x, y, z + s))) a"

subsection \<open>\<open>place_meshes\<close>\<close>

text \<open>
  Lines 33 to 36: the floor offset \<open>min_z\<close>. With an obstacle the obstacle's minimum is
  evaluated first, then the one of cloth frame 0, and Python's \<open>min\<close> of the two is taken;
  without one it is the minimum of cloth frame 0 minus 2.
\<close>

definition floor_offset :: "frames \<Rightarrow> frames option \<Rightarrow> error + rat" where
  "floor_offset cloth_pos obstacle_pos =
     (case obstacle_pos of
        Some ob \<Rightarrow>
          (case all_frames_min ob of
             Inl e \<Rightarrow> Inl e
           | Inr a \<Rightarrow>
               (case frame0_min cloth_pos of
                  Inl e \<Rightarrow> Inl e
                | Inr b \<Rightarrow> Inr (min a b)))
      | None \<Rightarrow>
          (case frame0_min cloth_pos of
             Inl e \<Rightarrow> Inl e
           | Inr b \<Rightarrow> Inr (b - 2)))"

definition place_meshes ::
  "frames \<Rightarrow> frames option \<Rightarrow> rat \<Rightarrow> rat \<Rightarrow> error + (frames \<times> frames option)" where
  "place_meshes cloth_pos obstacle_pos x_shift y_shift =
     (case floor_offset cloth_pos obstacle_pos of
        Inl e \<Rightarrow> Inl e
      | Inr min_z \<Rightarrow>
          Inr (add_axis2 y_shift (add_axis0 x_shift (sub_axis1 min_z cloth_pos)),
               (case obstacle_pos of
                  None \<Rightarrow> None
                | Some ob \<Rightarrow>
                    Some (add_axis2 y_shift (add_axis0 x_shift (sub_axis1 min_z ob))))))"

text \<open>What the three updates do to one vertex.\<close>

definition placed :: "rat \<Rightarrow> rat \<Rightarrow> rat \<Rightarrow> vertex \<Rightarrow> vertex" where
  "placed m xs ys v = (axis0 v + xs, axis1 v - m, axis2 v + ys)"

section \<open>Colours\<close>

text \<open>
  A colour is a float64 array of four channels. Dividing by zero does not raise in numpy:
  it gives \<open>nan\<close> or an infinity (and a warning). So a channel is a finite number, an
  infinity or \<open>nan\<close>, and the arithmetic below is the one of IEEE 754 on these values,
  exact on the finite ones (signed zeros are not distinguished).
\<close>

datatype fnum = Fin rat | PInf | NInf | NaN

type_synonym color = "fnum \<times> fnum \<times> fnum \<times> fnum"

fun fdiv :: "fnum \<Rightarrow> fnum \<Rightarrow> fnum" where
  "fdiv NaN _ = NaN"
| "fdiv _ NaN = NaN"
| "fdiv (Fin a) (Fin b) =
     (if b \<noteq> 0 then Fin (a / b)
      else if 0 < a then PInf
      else if a < 0 then NInf
      else NaN)"
| "fdiv (Fin a) PInf = Fin 0"
| "fdiv (Fin a) NInf = Fin 0"
| "fdiv PInf (Fin b) = (if b < 0 then NInf else PInf)"
| "fdiv NInf (Fin b) = (if b < 0 then PInf else NInf)"
| "fdiv PInf PInf = NaN"
| "fdiv PInf NInf = NaN"
| "fdiv NInf PInf = NaN"
| "fdiv NInf NInf = NaN"

fun fmul :: "fnum \<Rightarrow> fnum \<Rightarrow> fnum" where
  "fmul NaN _ = NaN"
| "fmul _ NaN = NaN"
| "fmul (Fin a) (Fin b) = Fin (a * b)"
| "fmul (Fin a) PInf = (if 0 < a then PInf else if a < 0 then NInf else NaN)"
| "fmul (Fin a) NInf = (if 0 < a then NInf else if a < 0 then PInf else NaN)"
| "fmul PInf (Fin b) = (if 0 < b then PInf else if b < 0 then NInf else NaN)"
| "fmul NInf (Fin b) = (if 0 < b then NInf else if b < 0 then PInf else NaN)"
| "fmul PInf PInf = PInf"
| "fmul PInf NInf = NInf"
| "fmul NInf PInf = NInf"
| "fmul NInf NInf = PInf"

fun fadd :: "fnum \<Rightarrow> fnum \<Rightarrow> fnum" where
  "fadd NaN _ = NaN"
| "fadd _ NaN = NaN"
| "fadd (Fin a) (Fin b) = Fin (a + b)"
| "fadd (Fin a) PInf = PInf"
| "fadd (Fin a) NInf = NInf"
| "fadd PInf (Fin b) = PInf"
| "fadd NInf (Fin b) = NInf"
| "fadd PInf PInf = PInf"
| "fadd PInf NInf = NaN"
| "fadd NInf PInf = NaN"
| "fadd NInf NInf = NInf"

text \<open>The maximum of numpy: \<open>nan\<close> if an operand is \<open>nan\<close>, else the larger one.\<close>

fun fmax :: "fnum \<Rightarrow> fnum \<Rightarrow> fnum" where
  "fmax NaN _ = NaN"
| "fmax _ NaN = NaN"
| "fmax PInf _ = PInf"
| "fmax _ PInf = PInf"
| "fmax NInf y = y"
| "fmax x NInf = x"
| "fmax (Fin a) (Fin b) = Fin (max a b)"

subsection \<open>\<open>adjust_color\<close>\<close>

text \<open>
  Line 55 divides the first three channels by their maximum (\<open>max(axis=-1)\<close>, per
  colour), line 56 multiplies them by 0.3, line 57 adds 0.3. The fourth channel is not
  touched. The function has no \<open>raise\<close> and none of its operations raises on a float
  array, so it is a total function to colours.
\<close>

definition channel_max :: "color \<Rightarrow> fnum" where
  "channel_max c = (case c of (r, g, b, a) \<Rightarrow> fmax (fmax r g) b)"

definition div_rgb :: "fnum \<Rightarrow> color \<Rightarrow> color" where
  "div_rgb m c = (case c of (r, g, b, a) \<Rightarrow> (fdiv r m, fdiv g m, fdiv b m, a))"

definition mul_rgb :: "fnum \<Rightarrow> color \<Rightarrow> color" where
  "mul_rgb k c = (case c of (r, g, b, a) \<Rightarrow> (fmul r k, fmul g k, fmul b k, a))"

definition add_rgb :: "fnum \<Rightarrow> color \<Rightarrow> color" where
  "add_rgb k c = (case c of (r, g, b, a) \<Rightarrow> (fadd r k, fadd g k, fadd b k, a))"

definition adjust_color :: "color \<Rightarrow> color" where
  "adjust_color color =
     add_rgb (Fin (3 / 10)) (mul_rgb (Fin (3 / 10)) (div_rgb (channel_max color) color))"

section \<open>Building the mesh sequences\<close>

text \<open>
  A face array holds vertex indices, three per face. The source takes it with two or three
  dimensions (faces, or frames of faces); indexing it once with \<open>[0]\<close> removes the first
  dimension, so the arrays of one and of no dimension are here as well.
\<close>

type_synonym face = "int \<times> int \<times> int"

datatype face_array =
    Faces3 "face list list"
  | Faces2 "face list"
  | Faces1 face
  | Faces0 int

text \<open>\<open>len(a.shape)\<close>.\<close>

fun ndim :: "face_array \<Rightarrow> nat" where
  "ndim (Faces3 _) = 3"
| "ndim (Faces2 _) = 2"
| "ndim (Faces1 _) = 1"
| "ndim (Faces0 _) = 0"

text \<open>\<open>a[0]\<close>: \<open>IndexError\<close> when the first axis is empty or when there is no axis.\<close>

fun index0 :: "face_array \<Rightarrow> error + face_array" where
  "index0 (Faces3 []) = Inl IndexError"
| "index0 (Faces3 (f # _)) = Inr (Faces2 f)"
| "index0 (Faces2 []) = Inl IndexError"
| "index0 (Faces2 (f # _)) = Inr (Faces1 f)"
| "index0 (Faces1 (i, _, _)) = Inr (Faces0 i)"
| "index0 (Faces0 _) = Inl IndexError"

text \<open>
  The unpickled rollout is a dictionary. The function reads four of its keys; a field is
  \<open>None\<close> when the key is absent, and holds an array of the kind the key is for otherwise.
\<close>

record rollout =
  pred :: "frames option"
  cloth_faces :: "face_array option"
  obstacle :: "frames option"
  obstacle_faces :: "face_array option"

text \<open>
  What is handed to the viewer's \<open>Meshes\<close> class, which is not part of the repository:
  its arguments, and the flag set on the object afterwards.
\<close>

record meshes =
  vertices :: frames
  faces :: face_array
  name :: string
  color :: color
  backface_culling :: bool

text \<open>An f-string prints the default \<open>name = None\<close> as \<open>None\<close>.\<close>

definition format_name :: "string option \<Rightarrow> string" where
  "format_name n = (case n of None \<Rightarrow> ''None'' | Some s \<Rightarrow> s)"

subsection \<open>\<open>add_seq\<close>\<close>

text \<open>
  Lines 79 to 85. \<open>obstacle\<close> is true exactly when the key \<open>obstacle_faces\<close> is there;
  then both obstacle arrays are read, and a missing key \<open>obstacle\<close> is a \<open>KeyError\<close>.
  The result is \<open>None\<close> when \<open>obstacle\<close> is false, the faces and the positions otherwise.
\<close>

definition read_obstacle :: "rollout \<Rightarrow> error + (face_array \<times> frames) option" where
  "read_obstacle traj_dict =
     (case obstacle_faces traj_dict of
        None \<Rightarrow> Inr None
      | Some ofaces \<Rightarrow>
          (case obstacle traj_dict of
             None \<Rightarrow> Inl (KeyError ''obstacle'')
           | Some opos \<Rightarrow> Inr (Some (ofaces, opos))))"

text \<open>
  Lines 87 to 90. The test is on the cloth faces alone; when they have three dimensions,
  frame 0 is taken of the cloth faces and, with an obstacle, of the obstacle faces.
\<close>

definition first_frame_faces ::
  "face_array \<Rightarrow> (face_array \<times> frames) option \<Rightarrow>
     error + (face_array \<times> (face_array \<times> frames) option)" where
  "first_frame_faces cfaces ob =
     (if ndim cfaces = 3 then
        (case index0 cfaces of
           Inl e \<Rightarrow> Inl e
         | Inr cfaces0 \<Rightarrow>
             (case ob of
                None \<Rightarrow> Inr (cfaces0, None)
              | Some (ofaces, opos) \<Rightarrow>
                  (case index0 ofaces of
                     Inl e \<Rightarrow> Inl e
                   | Inr ofaces0 \<Rightarrow> Inr (cfaces0, Some (ofaces0, opos)))))
      else Inr (cfaces, ob))"

text \<open>Lines 95 to 102: the colours.\<close>

definition cloth_rgba :: "color option \<Rightarrow> fnum \<Rightarrow> color" where
  "cloth_rgba cloth_color cloth_opacity =
     adjust_color (case cloth_color of
                     None \<Rightarrow> (Fin 0, Fin (3 / 10), Fin (3 / 10), cloth_opacity)
                   | Some c \<Rightarrow> c)"

definition obstacle_rgba :: "fnum \<Rightarrow> color" where
  "obstacle_rgba obstacle_opacity = (Fin (3 / 10), Fin (3 / 10), Fin (3 / 10), obstacle_opacity)"

text \<open>Lines 104 to 115: the cloth mesh, then the obstacle mesh when \<open>obstacle\<close> is true.\<close>

definition build_meshes ::
  "frames \<Rightarrow> face_array \<Rightarrow> (frames \<times> face_array) option \<Rightarrow> color \<Rightarrow> color \<Rightarrow>
     string option \<Rightarrow> meshes list" where
  "build_meshes pos cfaces ob ccolor ocolor nm =
     \<lparr>vertices = pos, faces = cfaces, name = format_name nm @ ''_cloth'', color = ccolor,
      backface_culling = False\<rparr>
     # (case ob of
          None \<Rightarrow> []
        | Some (opos, ofaces) \<Rightarrow>
            [\<lparr>vertices = opos, faces = ofaces, name = format_name nm @ ''_obstacle'',
              color = ocolor, backface_culling = False\<rparr>])"

text \<open>
  The whole function, on the unpickled dictionary. The keys are read in the order of the
  source: \<open>cloth_faces\<close>, \<open>obstacle_faces\<close>, \<open>obstacle\<close>, and \<open>pred\<close> after the faces
  have been reduced.
\<close>

definition add_seq ::
  "rollout \<Rightarrow> rat \<Rightarrow> rat \<Rightarrow> color option \<Rightarrow> string option \<Rightarrow> fnum \<Rightarrow> fnum \<Rightarrow>
     error + meshes list" where
  "add_seq traj_dict x_shift y_shift cloth_color nm obstacle_opacity cloth_opacity =
     (case cloth_faces traj_dict of
        None \<Rightarrow> Inl (KeyError ''cloth_faces'')
      | Some cfaces \<Rightarrow>
          (case read_obstacle traj_dict of
             Inl e \<Rightarrow> Inl e
           | Inr ob \<Rightarrow>
               (case first_frame_faces cfaces ob of
                  Inl e \<Rightarrow> Inl e
                | Inr (cfaces', ob') \<Rightarrow>
                    (case pred traj_dict of
                       None \<Rightarrow> Inl (KeyError ''pred'')
                     | Some pos \<Rightarrow>
                         (case place_meshes pos (map_option snd ob') x_shift y_shift of
                            Inl e \<Rightarrow> Inl e
                          | Inr (pos', opos') \<Rightarrow>
                              Inr (build_meshes pos' cfaces'
                                     (case (opos', ob') of
                                        (Some p, Some (f, _)) \<Rightarrow> Some (p, f)
                                      | _ \<Rightarrow> None)
                                     (cloth_rgba cloth_color cloth_opacity)
                                     (obstacle_rgba obstacle_opacity) nm))))))"

section \<open>Writing the frames\<close>

subsection \<open>Formatting\<close>

text \<open>
  The f-strings of the exporter print a frame number with \<open>:04\<close>, a coordinate with
  \<open>:.6f\<close> and a face index through \<open>int\<close>. A string is a list of bytes.
\<close>

definition digit_char :: "nat \<Rightarrow> char" where
  "digit_char d = char_of (48 + d)"

text \<open>The decimal digits of a natural number, without leading zeros.\<close>

fun str_nat :: "nat \<Rightarrow> string" where
  "str_nat n = (if n < 10 then [digit_char n] else str_nat (n div 10) @ [digit_char (n mod 10)])"

definition str_int :: "int \<Rightarrow> string" where
  "str_int k = (if k < 0 then ''-'' @ str_nat (nat (- k)) else str_nat (nat k))"

text \<open>Zeros on the left up to a width; a longer string is left as it is.\<close>

definition zfill :: "nat \<Rightarrow> string \<Rightarrow> string" where
  "zfill w s = replicate (w - length s) (CHR ''0'') @ s"

text \<open>
  A coordinate as the exporter reads it from the float array: a finite number by its exact
  value, negative zero, an infinity, or \<open>nan\<close>.
\<close>

datatype float_value = Finite rat | NegZero | PosInfinity | NegInfinity | QNaN

type_synonym out_vertex = "float_value \<times> float_value \<times> float_value"

text \<open>
  A face as the exporter reads it from the integer array: three indices of the array's
  fixed width, signed (\<open>int64\<close> is \<open>64 word\<close>).
\<close>

type_synonym 'a index_face = "'a word \<times> 'a word \<times> 'a word"

text \<open>
  \<open>:.6f\<close> rounds the exact value to the nearest multiple of \<open>10\<^sup>-\<^sup>6\<close>, a tie to the even
  one, and prints the sign of a negative number, and of negative zero, also when the
  digits are all zero. An infinity is printed as \<open>inf\<close> or \<open>-inf\<close>, and \<open>nan\<close> as \<open>nan\<close>.
\<close>

definition round_half_even :: "rat \<Rightarrow> int" where
  "round_half_even q =
     (let f = \<lfloor>q\<rfloor>; d = q - of_int f
      in if d < 1 / 2 then f
         else if 1 / 2 < d then f + 1
         else if even f then f else f + 1)"

definition fixed_6f :: "bool \<Rightarrow> rat \<Rightarrow> string" where
  "fixed_6f negative m =
     (let n = nat (round_half_even (m * 1000000))
      in (if negative then ''-'' else '''')
         @ str_nat (n div 1000000) @ ''.'' @ zfill 6 (str_nat (n mod 1000000)))"

fun format_6f :: "float_value \<Rightarrow> string" where
  "format_6f (Finite x) = fixed_6f (x < 0) \<bar>x\<bar>"
| "format_6f NegZero = fixed_6f True 0"
| "format_6f PosInfinity = ''inf''"
| "format_6f NegInfinity = ''-inf''"
| "format_6f QNaN = ''nan''"

text \<open>\<open>os.path.join\<close> of two components, on POSIX.\<close>

definition os_path_join :: "string \<Rightarrow> string \<Rightarrow> string" where
  "os_path_join a b =
     (if b \<noteq> [] \<and> hd b = CHR ''/'' then b
      else if a = [] \<or> last a = CHR ''/'' then a @ b
      else a @ ''/'' @ b)"

subsection \<open>Files\<close>

text \<open>
  What the exporter acts on: the directories made, the files by path with their contents,
  and the lines printed. A failing system call (a full disk, a missing permission) is
  outside this development.
\<close>

record world =
  dirs :: "string set"
  files :: "string \<rightharpoonup> string"
  stdout :: "string list"

text \<open>\<open>Path(output_dir).mkdir(parents=True, exist_ok=True)\<close>.\<close>

definition mkdir :: "string \<Rightarrow> world \<Rightarrow> world" where
  "mkdir d w = w\<lparr>dirs := insert d (dirs w)\<rparr>"

text \<open>\<open>open(filename, 'w')\<close> makes the file empty; \<open>f.write(s)\<close> appends to it.\<close>

definition open_w :: "string \<Rightarrow> world \<Rightarrow> world" where
  "open_w filename w = w\<lparr>files := (files w)(filename \<mapsto> [])\<rparr>"

definition f_write :: "string \<Rightarrow> string \<Rightarrow> world \<Rightarrow> world" where
  "f_write filename s w =
     w\<lparr>files := (files w)(filename \<mapsto> (case files w filename of None \<Rightarrow> s | Some t \<Rightarrow> t @ s))\<rparr>"

definition print_line :: "string \<Rightarrow> world \<Rightarrow> world" where
  "print_line s w = w\<lparr>stdout := stdout w @ [s]\<rparr>"

subsection \<open>\<open>export_animated_mesh_to_obj_sequence\<close>\<close>

text \<open>
  The mesh gives \<open>vertices_sequence\<close> of shape \<open>(T, V, 3)\<close> and \<open>faces_list\<close> of shape
  \<open>(F, 3)\<close>. Line 154 writes a vertex, line 156 a face with each index increased by
  one, line 151 makes the file name of frame \<open>i\<close>. The sum \<open>face[k] + 1\<close> is one of
  numpy integers of the array's width and wraps around at its largest value; \<open>int\<close> then
  reads it as a signed number.
\<close>

definition vertex_text :: "out_vertex \<Rightarrow> string" where
  "vertex_text v =
     (case v of (x, y, z) \<Rightarrow> ''v '' @ format_6f x @ '' '' @ format_6f y @ '' '' @ format_6f z)"

definition face_text :: "'a::len index_face \<Rightarrow> string" where
  "face_text face =
     (case face of (a, b, c) \<Rightarrow>
        ''f '' @ str_int (sint (a + 1)) @ '' '' @ str_int (sint (b + 1)) @ '' ''
        @ str_int (sint (c + 1)))"

definition frame_filename :: "string \<Rightarrow> string \<Rightarrow> nat \<Rightarrow> string" where
  "frame_filename output_dir basename i =
     os_path_join output_dir (basename @ ''_'' @ zfill 4 (str_nat i) @ ''.obj'')"

text \<open>Lines 152 to 156: one file, the vertices in order, then the faces in order.\<close>

definition write_frame ::
  "string \<Rightarrow> out_vertex list \<Rightarrow> 'a::len index_face list \<Rightarrow> world \<Rightarrow> world" where
  "write_frame filename verts faces_list w =
     fold (\<lambda>face. f_write filename (face_text face @ [CHR 0x0A])) faces_list
       (fold (\<lambda>v. f_write filename (vertex_text v @ [CHR 0x0A])) verts
          (open_w filename w))"

text \<open>Lines 150 to 157: the loop over \<open>enumerate(vertices_sequence)\<close>, from index \<open>i\<close> on.\<close>

fun export_frames ::
  "string \<Rightarrow> string \<Rightarrow> 'a::len index_face list \<Rightarrow> nat \<Rightarrow> out_vertex list list \<Rightarrow> world
     \<Rightarrow> world" where
  "export_frames output_dir basename faces_list i [] w = w"
| "export_frames output_dir basename faces_list i (verts # rest) w =
     export_frames output_dir basename faces_list (Suc i) rest
       (print_line (''Wrote frame '' @ str_nat i @ '' to '' @ frame_filename output_dir basename i)
          (write_frame (frame_filename output_dir basename i) verts faces_list w))"

definition export_animated_mesh_to_obj_sequence ::
  "out_vertex list list \<Rightarrow> 'a::len index_face list \<Rightarrow> string \<Rightarrow> string \<Rightarrow> world \<Rightarrow> world" where
  "export_animated_mesh_to_obj_sequence vertices_sequence faces_list output_dir basename w =
     export_frames output_dir basename faces_list 0 vertices_sequence (mkdir output_dir w)"

subsection \<open>Reading the output back\<close>


definition is_digit :: "char \<Rightarrow> bool" where
  "is_digit c = (48 \<le> (of_char c :: nat) \<and> (of_char c :: nat) \<le> 57)"

definition nat_of_digits :: "string \<Rightarrow> nat" where
  "nat_of_digits s = foldl (\<lambda>n c. 10 * n + (of_char c - 48)) 0 s"







text \<open>The text of a frame file: a line for each vertex, then a line for each face.\<close>

definition frame_text :: "out_vertex list \<Rightarrow> 'a::len index_face list \<Rightarrow> string" where
  "frame_text verts faces_list =
     concat (map (\<lambda>v. vertex_text v @ [CHR 0x0A]) verts)
     @ concat (map (\<lambda>face. face_text face @ [CHR 0x0A]) faces_list)"

section \<open>Binary64 arithmetic\<close>

text \<open>
  On float64 arrays numpy computes in IEEE 754 binary64: an operation returns its exact
  result rounded to the nearest number with a significand of 53 bits, a tie to the one
  whose significand is even; below \<open>2\<^sup>-\<^sup>1\<^sup>0\<^sup>2\<^sup>2\<close> the spacing stays \<open>2\<^sup>-\<^sup>1\<^sup>0\<^sup>7\<^sup>4\<close>, and a result
  that rounds to \<open>2\<^sup>1\<^sup>0\<^sup>2\<^sup>4\<close> or more is an infinity. The definitions of the sections
  above compute on the exact values; the ones below round as the code does. The sign of
  zero is not kept.
\<close>

text \<open>The exponent of a positive number: \<open>2\<^sup>e \<le> x < 2\<^sup>e\<^sup>+\<^sup>1\<close>.\<close>

definition ilog2 :: "rat \<Rightarrow> int" where
  "ilog2 x =
     (case quotient_of x of
        (p, q) \<Rightarrow> let d = bitlen p - bitlen q in if 2 powi d \<le> x then d else d - 1)"

text \<open>The spacing of the binary64 numbers around a positive number is \<open>2\<close> to this power.\<close>

definition ulp_exp :: "rat \<Rightarrow> int" where
  "ulp_exp x = max (ilog2 x) (- 1022) - 52"

text \<open>A positive number rounded to a multiple of the spacing.\<close>

definition round_mag :: "rat \<Rightarrow> rat" where
  "round_mag x = of_int (round_half_even (x / 2 powi ulp_exp x)) * 2 powi ulp_exp x"

definition round64 :: "rat \<Rightarrow> fnum" where
  "round64 x =
     (if x = 0 then Fin 0
      else if 2 powi 1024 \<le> round_mag \<bar>x\<bar> then (if 0 < x then PInf else NInf)
      else Fin (if 0 < x then round_mag \<bar>x\<bar> else - round_mag \<bar>x\<bar>))"

fun round_fnum :: "fnum \<Rightarrow> fnum" where
  "round_fnum (Fin x) = round64 x"
| "round_fnum v = v"


definition fadd64 :: "fnum \<Rightarrow> fnum \<Rightarrow> fnum" where
  "fadd64 a b = round_fnum (fadd a b)"


definition fmul64 :: "fnum \<Rightarrow> fnum \<Rightarrow> fnum" where
  "fmul64 a b = round_fnum (fmul a b)"

definition fdiv64 :: "fnum \<Rightarrow> fnum \<Rightarrow> fnum" where
  "fdiv64 a b = round_fnum (fdiv a b)"





subsection \<open>\<open>place_meshes\<close> on float64 arrays\<close>












subsection \<open>\<open>adjust_color\<close> on a float64 array\<close>

text \<open>
  Lines 55 to 57 with each division, multiplication and addition rounded. The literal
  \<open>0.3\<close> is the binary64 number nearest to three tenths.
\<close>

definition float_0_3 :: fnum where
  "float_0_3 = round64 (3 / 10)"

definition div_rgb_f64 :: "fnum \<Rightarrow> color \<Rightarrow> color" where
  "div_rgb_f64 m c = (case c of (r, g, b, a) \<Rightarrow> (fdiv64 r m, fdiv64 g m, fdiv64 b m, a))"

definition mul_rgb_f64 :: "fnum \<Rightarrow> color \<Rightarrow> color" where
  "mul_rgb_f64 k c = (case c of (r, g, b, a) \<Rightarrow> (fmul64 r k, fmul64 g k, fmul64 b k, a))"

definition add_rgb_f64 :: "fnum \<Rightarrow> color \<Rightarrow> color" where
  "add_rgb_f64 k c = (case c of (r, g, b, a) \<Rightarrow> (fadd64 r k, fadd64 g k, fadd64 b k, a))"

definition adjust_color_f64 :: "color \<Rightarrow> color" where
  "adjust_color_f64 rgba =
     add_rgb_f64 float_0_3 (mul_rgb_f64 float_0_3 (div_rgb_f64 (channel_max rgba) rgba))"

section \<open>Placement\<close>

lemma shift_frames: "add_axis2 ys (add_axis0 xs (sub_axis1 m a)) = map (map (placed m xs ys)) a"
  by (simp add: add_axis2_def add_axis0_def sub_axis1_def placed_def axis0_def axis1_def
      axis2_def comp_def case_prod_beta)

lemma axis1_placed: "axis1 (placed m xs ys v) = axis1 v - m"
  by (simp add: placed_def axis1_def)

lemma array_min_Min: "xs \<noteq> [] \<Longrightarrow> array_min xs = Inr (Min (set xs))"
proof (cases xs)
  case Nil
  assume "xs \<noteq> []"
  with Nil show ?thesis by simp
next
  case (Cons a list)
  have "Min (set (a # list)) = fold min list a"
    by (rule Min.set_eq_fold)
  with Cons show ?thesis by simp
qed

lemma Min_shift:
  fixes S :: "rat set"
  assumes "finite S" "S \<noteq> {}"
  shows "Min ((\<lambda>y. y - m) ` S) = Min S - m"
proof (rule Min_eqI)
  show "finite ((\<lambda>y. y - m) ` S)" using assms by simp
  show "\<And>y. y \<in> (\<lambda>y. y - m) ` S \<Longrightarrow> Min S - m \<le> y" using assms by auto
  show "Min S - m \<in> (\<lambda>y. y - m) ` S" using assms Min_in by blast
qed

lemma frame0_min_Cons: "f0 \<noteq> [] \<Longrightarrow> frame0_min (f0 # fs) = Inr (Min (axis1 ` set f0))"
  by (simp add: frame0_min_def array_min_Min)

lemma all_frames_min_Min:
  "concat ob \<noteq> [] \<Longrightarrow> all_frames_min ob = Inr (Min (axis1 ` (\<Union>f \<in> set ob. set f)))"
proof -
  assume a: "concat ob \<noteq> []"
  have e: "concat (map (map axis1) ob) = map axis1 (concat ob)"
    by (simp add: map_concat)
  have "array_min (map axis1 (concat ob)) = Inr (Min (set (map axis1 (concat ob))))"
    using a by (intro array_min_Min) simp
  then show ?thesis
    by (simp add: all_frames_min_def e)
qed





text \<open>Where the source raises: a cloth without frames, and a frame 0 without vertices.\<close>

lemma place_meshes_no_frame: "place_meshes [] None x_shift y_shift = Inl IndexError"
  by (simp add: place_meshes_def floor_offset_def frame0_min_def)

lemma place_meshes_no_vertex: "place_meshes ([] # fs) None x_shift y_shift = Inl ValueError"
  by (simp add: place_meshes_def floor_offset_def frame0_min_def)

text \<open>
  In exact arithmetic: without an obstacle, and with a frame 0 that has a vertex, the
  floor offset is the least axis-1 coordinate of cloth frame 0 minus 2, every vertex of
  every frame has that offset subtracted from its axis-1 coordinate, and the least axis-1
  coordinate of frame 0 of the result is 2. What the rounding of float64 makes of this is
  in the section on placement in binary64.
\<close>

lemma place_meshes_exact_cloth_only:
  assumes "f0 \<noteq> []"
  shows "floor_offset (f0 # fs) None = Inr (Min (axis1 ` set f0) - 2)
       \<and> place_meshes (f0 # fs) None x_shift y_shift =
           Inr (map (map (placed (Min (axis1 ` set f0) - 2) x_shift y_shift)) (f0 # fs), None)
       \<and> Min (axis1 ` set (map (placed (Min (axis1 ` set f0) - 2) x_shift y_shift) f0)) = 2"
proof -
  let ?m = "Min (axis1 ` set f0) - 2"
  have off: "floor_offset (f0 # fs) None = Inr ?m"
    using assms by (simp add: floor_offset_def frame0_min_Cons)
  have res: "place_meshes (f0 # fs) None x_shift y_shift =
      Inr (map (map (placed ?m x_shift y_shift)) (f0 # fs), None)"
    unfolding place_meshes_def off by (simp add: shift_frames)
  have "axis1 ` set (map (placed ?m x_shift y_shift) f0) = (\<lambda>y. y - ?m) ` (axis1 ` set f0)"
    by (simp add: image_image axis1_placed)
  moreover have "Min ((\<lambda>y. y - ?m) ` (axis1 ` set f0)) = Min (axis1 ` set f0) - ?m"
    using assms by (intro Min_shift) simp_all
  ultimately have "Min (axis1 ` set (map (placed ?m x_shift y_shift) f0)) = 2"
    by simp
  with off res show ?thesis by simp
qed



section \<open>Colour adjustment\<close>

lemma adjust_color_finite:
  assumes "max (max r g) b \<noteq> 0"
  shows "adjust_color (Fin r, Fin g, Fin b, a) =
     (Fin (r / max (max r g) b * (3 / 10) + 3 / 10),
      Fin (g / max (max r g) b * (3 / 10) + 3 / 10),
      Fin (b / max (max r g) b * (3 / 10) + 3 / 10), a)"
  using assms
  by (simp add: adjust_color_def channel_max_def div_rgb_def mul_rgb_def add_rgb_def)

lemma alpha_adjust_color: "snd (snd (snd (adjust_color c))) = snd (snd (snd c))"
  by (cases c) (simp add: adjust_color_def channel_max_def div_rgb_def mul_rgb_def add_rgb_def)

text \<open>
  In exact arithmetic: when the maximum of the three finite colour channels is not zero,
  each of them is divided by that maximum, multiplied by three tenths and increased by
  three tenths; the alpha channel of every colour is returned as it is; (2, 4, 4, 1)
  gives (9/20, 3/5, 3/5, 1). What the rounding of float64 makes of this is in the section
  on colour adjustment in binary64.
\<close>

lemma adjust_color_exact_formula:
  "(\<forall>r g b a. max (max r g) b \<noteq> 0 \<longrightarrow>
      adjust_color (Fin r, Fin g, Fin b, a) =
        (Fin (r / max (max r g) b * (3 / 10) + 3 / 10),
         Fin (g / max (max r g) b * (3 / 10) + 3 / 10),
         Fin (b / max (max r g) b * (3 / 10) + 3 / 10), a))
   \<and> (\<forall>c. snd (snd (snd (adjust_color c))) = snd (snd (snd c)))
   \<and> adjust_color (Fin 2, Fin 4, Fin 4, Fin 1) = (Fin (45 / 100), Fin (6 / 10), Fin (6 / 10), Fin 1)"
proof (intro conjI allI impI)
  show "adjust_color (Fin 2, Fin 4, Fin 4, Fin 1) =
      (Fin (45 / 100), Fin (6 / 10), Fin (6 / 10), Fin 1)"
    by (simp add: adjust_color_def channel_max_def div_rgb_def mul_rgb_def add_rgb_def)
qed (simp_all add: adjust_color_finite alpha_adjust_color)



text \<open>
  C3. On a colour whose first three channels are zero the function raises nothing: the
  division 0 / 0 gives \<open>nan\<close>, which the multiplication and the addition keep, and the
  colour is returned with \<open>nan\<close> in the first three channels and its alpha unchanged.
\<close>

theorem adjust_color_zero: "adjust_color (Fin 0, Fin 0, Fin 0, a) = (NaN, NaN, NaN, a)"
  by (simp add: adjust_color_def channel_max_def div_rgb_def mul_rgb_def add_rgb_def)

theorem adjust_color_zero_counterexample:
  "adjust_color (Fin 0, Fin 0, Fin 0, Fin 1) = (NaN, NaN, NaN, Fin 1)"
  by (simp add: adjust_color_def channel_max_def div_rgb_def mul_rgb_def add_rgb_def)

text \<open>
  C9. The function is not idempotent: on (2, 4, 4, 1.0), whose colour channels are
  non-negative and not all zero, a second application changes the first channel from
  0.45 to 0.525.
\<close>

theorem adjust_color_not_idempotent:
  "\<exists>r g b a. 0 \<le> r \<and> 0 \<le> g \<and> 0 \<le> b \<and> \<not> (r = 0 \<and> g = 0 \<and> b = 0)
     \<and> adjust_color (adjust_color (Fin r, Fin g, Fin b, a)) \<noteq> adjust_color (Fin r, Fin g, Fin b, a)"
proof -
  have "adjust_color (adjust_color (Fin 2, Fin 4, Fin 4, Fin 1))
      \<noteq> adjust_color (Fin 2, Fin 4, Fin 4, Fin 1)"
    by (simp add: adjust_color_def channel_max_def div_rgb_def mul_rgb_def add_rgb_def)
  then show ?thesis
    by (intro exI [of _ 2] exI [of _ 4] exI [of _ "Fin 1"]) simp
qed

section \<open>The sequence builder\<close>

lemma read_obstacle_absent: "obstacle_faces d = None \<Longrightarrow> read_obstacle d = Inr None"
  by (simp add: read_obstacle_def)

lemma read_obstacle_key_error:
  "obstacle_faces d = Some f \<Longrightarrow> obstacle d = None \<Longrightarrow> read_obstacle d = Inl (KeyError ''obstacle'')"
  by (simp add: read_obstacle_def)

lemma read_obstacle_present:
  "obstacle_faces d = Some f \<Longrightarrow> obstacle d = Some p \<Longrightarrow> read_obstacle d = Inr (Some (f, p))"
  by (simp add: read_obstacle_def)

lemma place_meshes_obstacle_shape:
  "place_meshes pos ob xs ys = Inr (pos', ob') \<Longrightarrow> (ob' = None) = (ob = None)"
  by (auto simp: place_meshes_def split: sum.splits option.splits)

lemma first_frame_faces_shape:
  "first_frame_faces cf ob = Inr (cf', ob') \<Longrightarrow> (ob' = None) = (ob = None)"
  by (auto simp: first_frame_faces_def split: if_splits sum.splits option.splits)

lemma length_build_meshes:
  "length (build_meshes pos cf ob cc oc nm) = (if ob = None then 1 else 2)"
  by (auto simp: build_meshes_def split: option.splits)

lemma faces_build_meshes:
  "map faces (build_meshes pos cf ob cc oc nm) =
     cf # (case ob of None \<Rightarrow> [] | Some (p, f) \<Rightarrow> [f])"
  by (auto simp: build_meshes_def split: option.splits)

lemma add_seq_length:
  assumes "add_seq d xs ys cc nm oo co = Inr out"
  shows "length out = (if obstacle_faces d = None then 1 else 2)"
proof -
  from assms obtain cf ob cf' ob' pos pos' opos' where
    ro: "read_obstacle d = Inr ob"
    and ff: "first_frame_faces cf ob = Inr (cf', ob')"
    and pm: "place_meshes pos (map_option snd ob') xs ys = Inr (pos', opos')"
    and out: "out = build_meshes pos' cf'
        (case (opos', ob') of (Some p, Some (f, _)) \<Rightarrow> Some (p, f) | _ \<Rightarrow> None)
        (cloth_rgba cc co) (obstacle_rgba oo) nm"
    by (auto simp: add_seq_def split: option.splits sum.splits)
  have a: "(ob = None) = (obstacle_faces d = None)"
    using ro by (auto simp: read_obstacle_def split: option.splits)
  have b: "(ob' = None) = (ob = None)"
    using ff by (rule first_frame_faces_shape)
  have c: "(opos' = None) = (ob' = None)"
    using place_meshes_obstacle_shape [OF pm] by simp
  show ?thesis
    unfolding out length_build_meshes using a b c
    by (auto split: option.splits)
qed

text \<open>
  C8. A rollout whose cloth faces are per frame, \<open>c0\<close> for frame 0 and \<open>crest\<close> for the
  later frames, and whose obstacle faces are absent or per frame as well (\<open>o0\<close>, then
  \<open>orest\<close>), gives what the rollout with the static faces \<open>c0\<close> and \<open>o0\<close> gives, error
  or meshes: the later frames do not enter the result. When meshes are returned, their
  face arrays are \<open>c0\<close> and, with an obstacle, \<open>o0\<close>.
\<close>

theorem add_seq_frame0_faces:
  "add_seq \<lparr>pred = p, cloth_faces = Some (Faces3 (c0 # crest)), obstacle = ob,
            obstacle_faces = map_option (\<lambda>(o0, orest). Faces3 (o0 # orest)) obf\<rparr>
       xs ys cc nm oo co =
   add_seq \<lparr>pred = p, cloth_faces = Some (Faces2 c0), obstacle = ob,
            obstacle_faces = map_option (\<lambda>(o0, orest). Faces2 o0) obf\<rparr>
       xs ys cc nm oo co
   \<and> (\<forall>out. add_seq \<lparr>pred = p, cloth_faces = Some (Faces3 (c0 # crest)), obstacle = ob,
            obstacle_faces = map_option (\<lambda>(o0, orest). Faces3 (o0 # orest)) obf\<rparr>
          xs ys cc nm oo co = Inr out \<longrightarrow>
        map faces out = Faces2 c0 # (case obf of None \<Rightarrow> [] | Some (o0, orest) \<Rightarrow> [Faces2 o0]))"
  by (cases obf; cases ob; cases p)
    (auto simp: add_seq_def read_obstacle_def first_frame_faces_def faces_build_meshes
      dest: place_meshes_obstacle_shape split: sum.splits option.splits)

theorem add_seq_frame0_faces_witness:
  "add_seq \<lparr>pred = Some [[(0, 1, 0)]], cloth_faces = Some (Faces3 [[(0, 1, 2)], [(2, 1, 0), (1, 1, 1)]]),
            obstacle = Some [[(0, 0, 0)]],
            obstacle_faces = Some (Faces3 [[(3, 4, 5)], [(5, 5, 5)]])\<rparr>
       0 0 None None (Fin 1) (Fin 1) =
     Inr [\<lparr>vertices = [[(0, 1, 0)]], faces = Faces2 [(0, 1, 2)], name = ''None_cloth'',
           color = (Fin (3 / 10), Fin (6 / 10), Fin (6 / 10), Fin 1), backface_culling = False\<rparr>,
          \<lparr>vertices = [[(0, 0, 0)]], faces = Faces2 [(3, 4, 5)], name = ''None_obstacle'',
           color = (Fin (3 / 10), Fin (3 / 10), Fin (3 / 10), Fin 1), backface_culling = False\<rparr>]
   \<and> map faces
        [\<lparr>vertices = [[(0, 1, 0)]], faces = Faces2 [(0, 1, 2)], name = ''None_cloth'',
           color = (Fin (3 / 10), Fin (6 / 10), Fin (6 / 10), Fin 1), backface_culling = False\<rparr>,
          \<lparr>vertices = [[(0, 0, 0)]], faces = Faces2 [(3, 4, 5)], name = ''None_obstacle'',
           color = (Fin (3 / 10), Fin (3 / 10), Fin (3 / 10), Fin 1), backface_culling = False\<rparr>]
      = [Faces2 [(0, 1, 2)], Faces2 [(3, 4, 5)]]"
proof -
  have run: "add_seq \<lparr>pred = Some [[(0, 1, 0)]], cloth_faces = Some (Faces2 [(0, 1, 2)]),
            obstacle = Some [[(0, 0, 0)]], obstacle_faces = Some (Faces2 [(3, 4, 5)])\<rparr>
       0 0 None None (Fin 1) (Fin 1) =
     Inr [\<lparr>vertices = [[(0, 1, 0)]], faces = Faces2 [(0, 1, 2)], name = ''None_cloth'',
           color = (Fin (3 / 10), Fin (6 / 10), Fin (6 / 10), Fin 1), backface_culling = False\<rparr>,
          \<lparr>vertices = [[(0, 0, 0)]], faces = Faces2 [(3, 4, 5)], name = ''None_obstacle'',
           color = (Fin (3 / 10), Fin (3 / 10), Fin (3 / 10), Fin 1), backface_culling = False\<rparr>]"
    by (simp add: add_seq_def read_obstacle_def first_frame_faces_def place_meshes_def
        floor_offset_def all_frames_min_def frame0_min_def axis1_def sub_axis1_def add_axis0_def
        add_axis2_def build_meshes_def format_name_def cloth_rgba_def obstacle_rgba_def
        adjust_color_def channel_max_def div_rgb_def mul_rgb_def add_rgb_def)
  show ?thesis
    using add_seq_frame0_faces [of "Some [[(0, 1, 0)]]" "[(0, 1, 2)]" "[[(2, 1, 0), (1, 1, 1)]]"
        "Some [[(0, 0, 0)]]" "Some ([(3, 4, 5)], [[(5, 5, 5)]])" 0 0 None None "Fin 1" "Fin 1"] run
    by simp
qed

lemma place_meshes_cloth_returns:
  assumes "f0 \<noteq> []"
  shows "\<exists>pos'. place_meshes (f0 # fs) None xs ys = Inr (pos', None)"
  using assms by (simp add: place_meshes_def floor_offset_def frame0_min_Cons)

lemma place_meshes_obstacle_returns:
  assumes "f0 \<noteq> []" and "concat ob \<noteq> []"
  shows "\<exists>pos' ob'. place_meshes (f0 # fs) (Some ob) xs ys = Inr (pos', Some ob')"
  using assms
  by (simp add: place_meshes_def floor_offset_def frame0_min_Cons all_frames_min_Min)

lemma add_seq_builds_cloth_only:
  assumes "obstacle_faces d = None" and "cloth_faces d = Some cf" and "ndim cf \<noteq> 3"
    and "pred d = Some (f0 # fs)" and "f0 \<noteq> []"
  shows "\<exists>pos'. place_meshes (f0 # fs) None xs ys = Inr (pos', None)
     \<and> add_seq d xs ys cc nm oo co =
         Inr [\<lparr>vertices = pos', faces = cf, name = format_name nm @ ''_cloth'',
               color = cloth_rgba cc co, backface_culling = False\<rparr>]"
proof -
  obtain pos' where p: "place_meshes (f0 # fs) None xs ys = Inr (pos', None)"
    using place_meshes_cloth_returns [OF assms(5)] by blast
  have "add_seq d xs ys cc nm oo co =
      Inr [\<lparr>vertices = pos', faces = cf, name = format_name nm @ ''_cloth'',
            color = cloth_rgba cc co, backface_culling = False\<rparr>]"
    using assms(1-4) p
    by (simp add: add_seq_def read_obstacle_def first_frame_faces_def build_meshes_def)
  with p show ?thesis by blast
qed

lemma add_seq_builds_both:
  assumes "obstacle_faces d = Some ofc" and "obstacle d = Some ob" and "concat ob \<noteq> []"
    and "cloth_faces d = Some cf" and "ndim cf \<noteq> 3"
    and "pred d = Some (f0 # fs)" and "f0 \<noteq> []"
  shows "\<exists>pos' ob'. place_meshes (f0 # fs) (Some ob) xs ys = Inr (pos', Some ob')
     \<and> add_seq d xs ys cc nm oo co =
         Inr [\<lparr>vertices = pos', faces = cf, name = format_name nm @ ''_cloth'',
               color = cloth_rgba cc co, backface_culling = False\<rparr>,
              \<lparr>vertices = ob', faces = ofc, name = format_name nm @ ''_obstacle'',
               color = obstacle_rgba oo, backface_culling = False\<rparr>]"
proof -
  obtain pos' ob' where p: "place_meshes (f0 # fs) (Some ob) xs ys = Inr (pos', Some ob')"
    using place_meshes_obstacle_returns [OF assms(7) assms(3)] by blast
  have "add_seq d xs ys cc nm oo co =
      Inr [\<lparr>vertices = pos', faces = cf, name = format_name nm @ ''_cloth'',
            color = cloth_rgba cc co, backface_culling = False\<rparr>,
           \<lparr>vertices = ob', faces = ofc, name = format_name nm @ ''_obstacle'',
            color = obstacle_rgba oo, backface_culling = False\<rparr>]"
    using assms(1,2,4,5,6) p
    by (simp add: add_seq_def read_obstacle_def first_frame_faces_def build_meshes_def)
  with p show ?thesis by blast
qed

text \<open>
  C10. The obstacle is decided by the key \<open>obstacle_faces\<close> alone. Without it, the result
  is the one of the same rollout without the key \<open>obstacle\<close>, and a returned list holds
  the cloth mesh only. With it and without the key \<open>obstacle\<close>, the call ends in a
  \<open>KeyError\<close>: for \<open>obstacle\<close>, or for \<open>cloth_faces\<close> when that key is missing too, since
  it is read first. A returned list has two meshes exactly when \<open>obstacle_faces\<close> is
  there. And lists are returned: a rollout without \<open>obstacle_faces\<close>, with static cloth
  faces and a vertex in cloth frame 0, gives the list of the one cloth mesh, placed as
  without obstacle, whether or not it has the key \<open>obstacle\<close>; with both obstacle keys
  and a vertex in the obstacle it gives the cloth mesh and the obstacle mesh.
\<close>

theorem add_seq_obstacle_by_key:
  "(obstacle_faces d = None \<longrightarrow>
      add_seq d xs ys cc nm oo co = add_seq (d\<lparr>obstacle := None\<rparr>) xs ys cc nm oo co
      \<and> (\<forall>out. add_seq d xs ys cc nm oo co = Inr out \<longrightarrow> length out = 1))
   \<and> (obstacle_faces d \<noteq> None \<and> obstacle d = None \<longrightarrow>
        add_seq d xs ys cc nm oo co =
          Inl (KeyError (if cloth_faces d = None then ''cloth_faces'' else ''obstacle'')))
   \<and> (\<forall>out. add_seq d xs ys cc nm oo co = Inr out \<longrightarrow>
        (length out = 2) = (obstacle_faces d \<noteq> None))
   \<and> (\<forall>cf f0 fs. obstacle_faces d = None \<and> cloth_faces d = Some cf \<and> ndim cf \<noteq> 3
          \<and> pred d = Some (f0 # fs) \<and> f0 \<noteq> [] \<longrightarrow>
        (\<exists>pos'. place_meshes (f0 # fs) None xs ys = Inr (pos', None)
           \<and> add_seq d xs ys cc nm oo co =
               Inr [\<lparr>vertices = pos', faces = cf, name = format_name nm @ ''_cloth'',
                     color = cloth_rgba cc co, backface_culling = False\<rparr>]))
   \<and> (\<forall>cf f0 fs ofc ob. obstacle_faces d = Some ofc \<and> obstacle d = Some ob \<and> concat ob \<noteq> []
          \<and> cloth_faces d = Some cf \<and> ndim cf \<noteq> 3 \<and> pred d = Some (f0 # fs) \<and> f0 \<noteq> [] \<longrightarrow>
        (\<exists>pos' ob'. place_meshes (f0 # fs) (Some ob) xs ys = Inr (pos', Some ob')
           \<and> add_seq d xs ys cc nm oo co =
               Inr [\<lparr>vertices = pos', faces = cf, name = format_name nm @ ''_cloth'',
                     color = cloth_rgba cc co, backface_culling = False\<rparr>,
                    \<lparr>vertices = ob', faces = ofc, name = format_name nm @ ''_obstacle'',
                     color = obstacle_rgba oo, backface_culling = False\<rparr>]))"
proof (intro conjI impI allI)
  assume a: "obstacle_faces d = None"
  then have "read_obstacle (d\<lparr>obstacle := None\<rparr>) = read_obstacle d"
    by (simp add: read_obstacle_def)
  then show "add_seq d xs ys cc nm oo co = add_seq (d\<lparr>obstacle := None\<rparr>) xs ys cc nm oo co"
    by (simp add: add_seq_def split: option.splits sum.splits)
  fix out
  assume "add_seq d xs ys cc nm oo co = Inr out"
  from add_seq_length [OF this] a show "length out = 1" by simp
next
  assume "obstacle_faces d \<noteq> None \<and> obstacle d = None"
  then show "add_seq d xs ys cc nm oo co =
      Inl (KeyError (if cloth_faces d = None then ''cloth_faces'' else ''obstacle''))"
    by (auto simp: add_seq_def read_obstacle_def split: option.splits)
next
  fix out
  assume "add_seq d xs ys cc nm oo co = Inr out"
  from add_seq_length [OF this] show "(length out = 2) = (obstacle_faces d \<noteq> None)"
    by simp
next
  fix cf f0 fs
  assume "obstacle_faces d = None \<and> cloth_faces d = Some cf \<and> ndim cf \<noteq> 3
      \<and> pred d = Some (f0 # fs) \<and> f0 \<noteq> []"
  then show "\<exists>pos'. place_meshes (f0 # fs) None xs ys = Inr (pos', None)
      \<and> add_seq d xs ys cc nm oo co =
          Inr [\<lparr>vertices = pos', faces = cf, name = format_name nm @ ''_cloth'',
                color = cloth_rgba cc co, backface_culling = False\<rparr>]"
    by (intro add_seq_builds_cloth_only) simp_all
next
  fix cf f0 fs ofc ob
  assume "obstacle_faces d = Some ofc \<and> obstacle d = Some ob \<and> concat ob \<noteq> []
      \<and> cloth_faces d = Some cf \<and> ndim cf \<noteq> 3 \<and> pred d = Some (f0 # fs) \<and> f0 \<noteq> []"
  then show "\<exists>pos' ob'. place_meshes (f0 # fs) (Some ob) xs ys = Inr (pos', Some ob')
      \<and> add_seq d xs ys cc nm oo co =
          Inr [\<lparr>vertices = pos', faces = cf, name = format_name nm @ ''_cloth'',
                color = cloth_rgba cc co, backface_culling = False\<rparr>,
               \<lparr>vertices = ob', faces = ofc, name = format_name nm @ ''_obstacle'',
                color = obstacle_rgba oo, backface_culling = False\<rparr>]"
    by (intro add_seq_builds_both) simp_all
qed

theorem add_seq_obstacle_by_key_witness:
  "obstacle_faces \<lparr>pred = Some [[(0, 1, 0)]], cloth_faces = Some (Faces2 [(0, 0, 0)]),
                   obstacle = Some [[(0, -5, 0)]], obstacle_faces = None\<rparr> = None
   \<and> add_seq \<lparr>pred = Some [[(0, 1, 0)]], cloth_faces = Some (Faces2 [(0, 0, 0)]),
              obstacle = Some [[(0, -5, 0)]], obstacle_faces = None\<rparr> 0 0 None None (Fin 1) (Fin 1)
     = Inr [\<lparr>vertices = [[(0, 2, 0)]], faces = Faces2 [(0, 0, 0)], name = ''None_cloth'',
             color = (Fin (3 / 10), Fin (6 / 10), Fin (6 / 10), Fin 1),
             backface_culling = False\<rparr>]
   \<and> add_seq \<lparr>pred = Some [[(0, 1, 0)]], cloth_faces = Some (Faces2 [(0, 0, 0)]),
              obstacle = Some [[(0, -5, 0)]], obstacle_faces = None\<rparr> 0 0 None None (Fin 1) (Fin 1)
     = add_seq \<lparr>pred = Some [[(0, 1, 0)]], cloth_faces = Some (Faces2 [(0, 0, 0)]),
              obstacle = None, obstacle_faces = None\<rparr> 0 0 None None (Fin 1) (Fin 1)
   \<and> add_seq \<lparr>pred = Some [[(0, 1, 0)]], cloth_faces = Some (Faces2 [(0, 0, 0)]),
              obstacle = Some [[(0, -5, 0)]], obstacle_faces = Some (Faces2 [(3, 3, 3)])\<rparr>
        0 0 None None (Fin 1) (Fin 1)
     = Inr [\<lparr>vertices = [[(0, 6, 0)]], faces = Faces2 [(0, 0, 0)], name = ''None_cloth'',
             color = (Fin (3 / 10), Fin (6 / 10), Fin (6 / 10), Fin 1),
             backface_culling = False\<rparr>,
            \<lparr>vertices = [[(0, 0, 0)]], faces = Faces2 [(3, 3, 3)], name = ''None_obstacle'',
             color = (Fin (3 / 10), Fin (3 / 10), Fin (3 / 10), Fin 1),
             backface_culling = False\<rparr>]
   \<and> obstacle_faces \<lparr>pred = Some [[(0, 1, 0)]], cloth_faces = Some (Faces2 [(0, 0, 0)]),
                   obstacle = None, obstacle_faces = Some (Faces2 [(0, 0, 0)])\<rparr> \<noteq> None
   \<and> obstacle \<lparr>pred = Some [[(0, 1, 0)]], cloth_faces = Some (Faces2 [(0, 0, 0)]),
             obstacle = None, obstacle_faces = Some (Faces2 [(0, 0, 0)])\<rparr> = None
   \<and> add_seq \<lparr>pred = Some [[(0, 1, 0)]], cloth_faces = Some (Faces2 [(0, 0, 0)]),
              obstacle = None, obstacle_faces = Some (Faces2 [(0, 0, 0)])\<rparr> 0 0 None None (Fin 1) (Fin 1)
     = Inl (KeyError ''obstacle'')"
proof -
  let ?d1 = "\<lparr>pred = Some [[(0, 1, 0)]], cloth_faces = Some (Faces2 [(0, 0, 0)]),
      obstacle = Some [[(0, -5, 0)]], obstacle_faces = None\<rparr>"
  let ?d2 = "\<lparr>pred = Some [[(0, 1, 0)]], cloth_faces = Some (Faces2 [(0, 0, 0)]),
      obstacle = Some [[(0, -5, 0)]], obstacle_faces = Some (Faces2 [(3, 3, 3)])\<rparr>"
  let ?d3 = "\<lparr>pred = Some [[(0, 1, 0)]], cloth_faces = Some (Faces2 [(0, 0, 0)]),
      obstacle = None, obstacle_faces = Some (Faces2 [(0, 0, 0)])\<rparr>"
  note t1 = add_seq_obstacle_by_key [of ?d1 0 0 None None "Fin 1" "Fin 1"]
  note t2 = add_seq_obstacle_by_key [of ?d2 0 0 None None "Fin 1" "Fin 1"]
  note t3 = add_seq_obstacle_by_key [of ?d3 0 0 None None "Fin 1" "Fin 1"]
  have c: "cloth_rgba None (Fin 1) = (Fin (3 / 10), Fin (6 / 10), Fin (6 / 10), Fin 1)"
    by (simp add: cloth_rgba_def adjust_color_def channel_max_def div_rgb_def mul_rgb_def
        add_rgb_def)
  have p1: "place_meshes [[(0, 1, 0)]] None 0 0 = Inr ([[(0, 2, 0)]], None)"
    by (simp add: place_meshes_def floor_offset_def frame0_min_def axis1_def sub_axis1_def
        add_axis0_def add_axis2_def)
  have p2: "place_meshes [[(0, 1, 0)]] (Some [[(0, -5, 0)]]) 0 0 =
      Inr ([[(0, 6, 0)]], Some [[(0, 0, 0)]])"
    by (simp add: place_meshes_def floor_offset_def frame0_min_def all_frames_min_def axis1_def
        sub_axis1_def add_axis0_def add_axis2_def)
  have same: "add_seq ?d1 0 0 None None (Fin 1) (Fin 1)
      = add_seq (?d1\<lparr>obstacle := None\<rparr>) 0 0 None None (Fin 1) (Fin 1)"
    using t1 [THEN conjunct1] by simp
  have "\<exists>pos'. place_meshes ([(0, 1, 0)] # []) None 0 0 = Inr (pos', None)
      \<and> add_seq ?d1 0 0 None None (Fin 1) (Fin 1) =
          Inr [\<lparr>vertices = pos', faces = Faces2 [(0, 0, 0)], name = format_name None @ ''_cloth'',
                color = cloth_rgba None (Fin 1), backface_culling = False\<rparr>]"
    using t1 [THEN conjunct2, THEN conjunct2, THEN conjunct2, THEN conjunct1, rule_format,
        of "Faces2 [(0, 0, 0)]" "[(0, 1, 0)]" "[]"]
    by simp
  then have b1: "add_seq ?d1 0 0 None None (Fin 1) (Fin 1) =
      Inr [\<lparr>vertices = [[(0, 2, 0)]], faces = Faces2 [(0, 0, 0)], name = ''None_cloth'',
            color = (Fin (3 / 10), Fin (6 / 10), Fin (6 / 10), Fin 1), backface_culling = False\<rparr>]"
    unfolding p1 c by (simp add: format_name_def)
  have "\<exists>pos' ob'. place_meshes ([(0, 1, 0)] # []) (Some [[(0, -5, 0)]]) 0 0 = Inr (pos', Some ob')
      \<and> add_seq ?d2 0 0 None None (Fin 1) (Fin 1) =
          Inr [\<lparr>vertices = pos', faces = Faces2 [(0, 0, 0)], name = format_name None @ ''_cloth'',
                color = cloth_rgba None (Fin 1), backface_culling = False\<rparr>,
               \<lparr>vertices = ob', faces = Faces2 [(3, 3, 3)], name = format_name None @ ''_obstacle'',
                color = obstacle_rgba (Fin 1), backface_culling = False\<rparr>]"
    using t2 [THEN conjunct2, THEN conjunct2, THEN conjunct2, THEN conjunct2, rule_format,
        of "Faces2 [(3, 3, 3)]" "[[(0, -5, 0)]]" "Faces2 [(0, 0, 0)]" "[(0, 1, 0)]" "[]"]
    by simp
  then have b2: "add_seq ?d2 0 0 None None (Fin 1) (Fin 1) =
      Inr [\<lparr>vertices = [[(0, 6, 0)]], faces = Faces2 [(0, 0, 0)], name = ''None_cloth'',
            color = (Fin (3 / 10), Fin (6 / 10), Fin (6 / 10), Fin 1), backface_culling = False\<rparr>,
           \<lparr>vertices = [[(0, 0, 0)]], faces = Faces2 [(3, 3, 3)], name = ''None_obstacle'',
            color = (Fin (3 / 10), Fin (3 / 10), Fin (3 / 10), Fin 1),
            backface_culling = False\<rparr>]"
    unfolding p2 c by (simp add: format_name_def obstacle_rgba_def)
  have b3: "add_seq ?d3 0 0 None None (Fin 1) (Fin 1) = Inl (KeyError ''obstacle'')"
    using t3 [THEN conjunct2, THEN conjunct1] by simp
  show ?thesis
    using same b1 b2 b3 by simp
qed

section \<open>The frame exporter\<close>

subsection \<open>Digits\<close>

declare str_nat.simps [simp del]

lemma of_char_digit_char: "d < 10 \<Longrightarrow> (of_char (digit_char d) :: nat) = 48 + d"
  by (simp add: digit_char_def)


lemma nat_of_digits_snoc:
  "nat_of_digits (s @ [c]) = 10 * nat_of_digits s + (of_char c - 48)"
  by (simp add: nat_of_digits_def)

lemma nat_of_digits_str_nat: "nat_of_digits (str_nat n) = n"
proof (induction n rule: str_nat.induct)
  case (1 n)
  show ?case
  proof (cases "n < 10")
    case True
    then show ?thesis
      by (subst str_nat.simps) (simp add: nat_of_digits_def of_char_digit_char)
  next
    case False
    with 1 have "nat_of_digits (str_nat (n div 10)) = n div 10" by simp
    moreover have "n mod 10 < 10" by simp
    ultimately show ?thesis
      using False
      by (subst str_nat.simps) (simp add: nat_of_digits_snoc of_char_digit_char)
  qed
qed





lemma nat_of_digits_zeros: "nat_of_digits (replicate k (CHR ''0'') @ s) = nat_of_digits s"
  by (induction k) (simp_all add: nat_of_digits_def)

lemma nat_of_digits_zfill: "nat_of_digits (zfill k (str_nat n)) = n"
  by (simp add: zfill_def nat_of_digits_zeros nat_of_digits_str_nat)





lemma zfill_str_nat_inj:
  assumes "zfill k (str_nat m) = zfill k (str_nat n)"
  shows "m = n"
proof -
  have "nat_of_digits (zfill k (str_nat m)) = nat_of_digits (zfill k (str_nat n))"
    by (simp only: assms)
  then show ?thesis by (simp only: nat_of_digits_zfill)
qed

subsection \<open>File names\<close>

lemma os_path_join_prefix:
  "os_path_join a (c # cs) =
     (if c = CHR ''/'' then [] else if a = [] \<or> last a = CHR ''/'' then a else a @ ''/'')
     @ c # cs"
  by (simp add: os_path_join_def)

lemma os_path_join_inj:
  assumes "os_path_join a (c # s) = os_path_join a (c # t)"
  shows "s = t"
  using assms unfolding os_path_join_prefix by simp

lemma frame_filename_Cons:
  "\<exists>c pre. \<forall>i. frame_filename output_dir basename i =
      os_path_join output_dir (c # pre @ zfill 4 (str_nat i) @ ''.obj'')"
proof (cases basename)
  case Nil
  then have "\<forall>i. frame_filename output_dir basename i =
      os_path_join output_dir (CHR ''_'' # [] @ zfill 4 (str_nat i) @ ''.obj'')"
    by (simp add: frame_filename_def)
  then show ?thesis by blast
next
  case (Cons c cs)
  then have "\<forall>i. frame_filename output_dir basename i =
      os_path_join output_dir (c # (cs @ ''_'') @ zfill 4 (str_nat i) @ ''.obj'')"
    by (simp add: frame_filename_def)
  then show ?thesis by blast
qed

lemma frame_filename_inj:
  assumes "frame_filename output_dir basename i = frame_filename output_dir basename j"
  shows "i = j"
proof -
  obtain c pre where eq: "\<And>k. frame_filename output_dir basename k =
      os_path_join output_dir (c # pre @ zfill 4 (str_nat k) @ ''.obj'')"
    using frame_filename_Cons [of output_dir basename] by blast
  from assms have "pre @ zfill 4 (str_nat i) @ ''.obj'' = pre @ zfill 4 (str_nat j) @ ''.obj''"
    unfolding eq by (rule os_path_join_inj)
  then have "zfill 4 (str_nat i) = zfill 4 (str_nat j)" by simp
  then show ?thesis by (rule zfill_str_nat_inj)
qed



subsection \<open>Writing one file\<close>

lemma files_fold_write:
  assumes "files w filename = Some t"
  shows "files (fold (\<lambda>x. f_write filename (g x)) xs w) = (files w)(filename \<mapsto> t @ concat (map g xs))"
  using assms
proof (induction xs arbitrary: w t)
  case Nil
  then show ?case by (simp add: fun_upd_idem)
next
  case (Cons x xs)
  have "files (f_write filename (g x) w) filename = Some (t @ g x)"
    using Cons.prems by (simp add: f_write_def)
  from Cons.IH [OF this] show ?case
    by (simp add: f_write_def fun_eq_iff)
qed


lemma dirs_fold_write: "dirs (fold (\<lambda>x. f_write filename (g x)) xs w) = dirs w"
  by (induction xs arbitrary: w) (simp_all add: f_write_def)

lemma files_write_frame:
  "files (write_frame filename verts faces_list w) =
     (files w)(filename \<mapsto> frame_text verts faces_list)"
proof -
  let ?w1 = "open_w filename w"
  let ?w2 = "fold (\<lambda>v. f_write filename (vertex_text v @ [CHR 0x0A])) verts ?w1"
  have f1: "files ?w1 filename = Some []" by (simp add: open_w_def)
  have f2: "files ?w2 = (files ?w1)(filename \<mapsto>
      [] @ concat (map (\<lambda>v. vertex_text v @ [CHR 0x0A]) verts))"
    using f1 by (rule files_fold_write)
  then have "files ?w2 filename = Some (concat (map (\<lambda>v. vertex_text v @ [CHR 0x0A]) verts))"
    by simp
  then have "files (fold (\<lambda>face. f_write filename (face_text face @ [CHR 0x0A])) faces_list ?w2) =
      (files ?w2)(filename \<mapsto> concat (map (\<lambda>v. vertex_text v @ [CHR 0x0A]) verts)
        @ concat (map (\<lambda>face. face_text face @ [CHR 0x0A]) faces_list))"
    by (rule files_fold_write)
  then show ?thesis
    unfolding write_frame_def frame_text_def f2 by (simp add: open_w_def)
qed


lemma dirs_write_frame: "dirs (write_frame filename verts faces_list w) = dirs w"
  by (simp add: write_frame_def dirs_fold_write open_w_def)

subsection \<open>The loop over the frames\<close>

lemma export_frames_other:
  assumes "\<forall>k < length vs. p \<noteq> frame_filename od bn (i + k)"
  shows "files (export_frames od bn fl i vs w) p = files w p"
  using assms
proof (induction vs arbitrary: i w)
  case Nil
  then show ?case by simp
next
  case (Cons verts rest)
  have "\<forall>k < length rest. p \<noteq> frame_filename od bn (Suc i + k)"
  proof (intro allI impI)
    fix k assume "k < length rest"
    then have "Suc k < length (verts # rest)" by simp
    with Cons.prems have "p \<noteq> frame_filename od bn (i + Suc k)" by blast
    then show "p \<noteq> frame_filename od bn (Suc i + k)" by simp
  qed
  from Cons.IH [OF this] have "files (export_frames od bn fl i (verts # rest) w) p =
      files (print_line (''Wrote frame '' @ str_nat i @ '' to '' @ frame_filename od bn i)
        (write_frame (frame_filename od bn i) verts fl w)) p"
    by simp
  moreover have "p \<noteq> frame_filename od bn i"
    using Cons.prems by force
  ultimately show ?case
    by (simp add: print_line_def files_write_frame)
qed

lemma export_frames_file:
  assumes "j < length vs"
  shows "files (export_frames od bn fl i vs w) (frame_filename od bn (i + j)) =
     Some (frame_text (vs ! j) fl)"
  using assms
proof (induction vs arbitrary: i j w)
  case Nil
  then show ?case by simp
next
  case (Cons verts rest)
  let ?w = "print_line (''Wrote frame '' @ str_nat i @ '' to '' @ frame_filename od bn i)
      (write_frame (frame_filename od bn i) verts fl w)"
  show ?case
  proof (cases j)
    case 0
    have "\<forall>k < length rest. frame_filename od bn i \<noteq> frame_filename od bn (Suc i + k)"
      by (auto dest: frame_filename_inj)
    then have "files (export_frames od bn fl (Suc i) rest ?w) (frame_filename od bn i) =
        files ?w (frame_filename od bn i)"
      by (rule export_frames_other)
    then show ?thesis
      using 0 by (simp add: print_line_def files_write_frame)
  next
    case (Suc j')
    with Cons.prems have "j' < length rest" by simp
    from Cons.IH [OF this, of "Suc i" ?w] show ?thesis
      using Suc by simp
  qed
qed


subsection \<open>Numbers in the text\<close>

lemma round_half_even_bound: "\<bar>of_int (round_half_even q) - q\<bar> \<le> 1 / 2"
proof -
  have "of_int \<lfloor>q\<rfloor> \<le> q" and "q < of_int \<lfloor>q\<rfloor> + 1"
    by linarith+
  then show ?thesis
    by (auto simp: round_half_even_def Let_def)
qed





lemma is_digit_not_newline: "is_digit c \<Longrightarrow> c \<noteq> CHR 0x0A"
  by (auto simp: is_digit_def)













subsection \<open>Lines\<close>







subsection \<open>An export, computed\<close>












subsection \<open>The exported sequence\<close>


lemma export_files_frame:
  assumes "i < length vs"
  shows "files (export_animated_mesh_to_obj_sequence vs fl od bn w) (frame_filename od bn i) =
     Some (frame_text (vs ! i) fl)"
  using export_frames_file [OF assms, of od bn fl 0 "mkdir od w"]
  by (simp add: export_animated_mesh_to_obj_sequence_def)





text \<open>
  C7. The content of a frame file is a function of the vertex and face arrays alone. Two
  runs on the same arrays, from any two states of the file system and of the output, and
  into any two directories under any two base names, leave the same bytes in the file of
  each frame, namely the text of that frame.
\<close>

theorem export_deterministic:
  assumes "i < length vertices_sequence"
  shows
    "files (export_animated_mesh_to_obj_sequence vertices_sequence faces_list dir1 base1 w1)
        (frame_filename dir1 base1 i)
     = files (export_animated_mesh_to_obj_sequence vertices_sequence faces_list dir2 base2 w2)
        (frame_filename dir2 base2 i)
     \<and> files (export_animated_mesh_to_obj_sequence vertices_sequence faces_list dir1 base1 w1)
        (frame_filename dir1 base1 i)
       = Some (frame_text (vertices_sequence ! i) faces_list)"
  using export_files_frame [OF assms, of faces_list dir1 base1 w1]
    export_files_frame [OF assms, of faces_list dir2 base2 w2]
  by simp

theorem export_deterministic_witness:
  "0 < length [[(Finite 0, Finite (1 / 2), Finite 0)], [(Finite 1, Finite 1, Finite 1)]]
   \<and> files (export_animated_mesh_to_obj_sequence
        [[(Finite 0, Finite (1 / 2), Finite 0)], [(Finite 1, Finite 1, Finite 1)]]
        [(0, 0, 0 :: 64 word)]
        ''a'' ''frame'' \<lparr>dirs = {}, files = Map.empty, stdout = []\<rparr>)
        (frame_filename ''a'' ''frame'' 0)
     = files (export_animated_mesh_to_obj_sequence
        [[(Finite 0, Finite (1 / 2), Finite 0)], [(Finite 1, Finite 1, Finite 1)]]
        [(0, 0, 0 :: 64 word)]
        ''a'' ''frame''
        \<lparr>dirs = {''a''}, files = [frame_filename ''a'' ''frame'' 0 \<mapsto> ''stale''],
         stdout = [''earlier'']\<rparr>)
        (frame_filename ''a'' ''frame'' 0)"
  using export_deterministic [where i = 0
      and vertices_sequence = "[[(Finite 0, Finite (1 / 2), Finite 0)], [(Finite 1, Finite 1, Finite 1)]]"
      and faces_list = "[(0, 0, 0 :: 64 word)]"
      and ?dir1.0 = "''a''" and ?base1.0 = "''frame''"
      and ?w1.0 = "\<lparr>dirs = {}, files = Map.empty, stdout = []\<rparr>"
      and ?dir2.0 = "''a''" and ?base2.0 = "''frame''"
      and ?w2.0 = "\<lparr>dirs = {''a''}, files = [frame_filename ''a'' ''frame'' 0 \<mapsto> ''stale''],
        stdout = [''earlier'']\<rparr>"]
  by simp

section \<open>Rounding to binary64\<close>

subsection \<open>Rounding to an integer\<close>

lemma round_half_even_cases:
  "round_half_even q = \<lfloor>q\<rfloor> \<or> round_half_even q = \<lfloor>q\<rfloor> + 1"
  by (simp add: round_half_even_def Let_def)

lemma round_half_even_of_int: "round_half_even (of_int n) = n"
  by (simp add: round_half_even_def Let_def)

lemma round_half_even_mono:
  assumes "a \<le> b"
  shows "round_half_even a \<le> round_half_even b"
proof (cases "\<lfloor>a\<rfloor> = \<lfloor>b\<rfloor>")
  case True
  have "a - of_int \<lfloor>a\<rfloor> \<le> b - of_int \<lfloor>a\<rfloor>"
    using assms by simp
  then show ?thesis
    using True by (auto simp: round_half_even_def Let_def)
next
  case False
  have "\<lfloor>a\<rfloor> \<le> \<lfloor>b\<rfloor>"
    using assms by (rule floor_mono)
  with False have "\<lfloor>a\<rfloor> + 1 \<le> \<lfloor>b\<rfloor>" by simp
  moreover have "round_half_even a \<le> \<lfloor>a\<rfloor> + 1"
    using round_half_even_cases [of a] by auto
  moreover have "\<lfloor>b\<rfloor> \<le> round_half_even b"
    using round_half_even_cases [of b] by auto
  ultimately show ?thesis by linarith
qed


lemma round_half_even_le: "q \<le> of_int n \<Longrightarrow> round_half_even q \<le> n"
  using round_half_even_mono [of q "of_int n"] by (simp add: round_half_even_of_int)

lemma round_half_even_nearest:
  assumes "\<bar>q - of_int n\<bar> < 1 / 2"
  shows "round_half_even q = n"
proof -
  have "\<bar>of_int (round_half_even q) - q\<bar> \<le> 1 / 2"
    by (rule round_half_even_bound)
  with assms have "\<bar>(of_int (round_half_even q) :: rat) - of_int n\<bar> < 1"
    by linarith
  then have "\<bar>(of_int (round_half_even q - n) :: rat)\<bar> < 1"
    by simp
  then have "\<bar>round_half_even q - n\<bar> < 1"
    by (metis of_int_abs of_int_less_1_iff)
  then show ?thesis by simp
qed

lemma round_half_even_tie:
  assumes "q = of_int n + 1 / 2" and "even n"
  shows "round_half_even q = n"
proof -
  have "\<lfloor>q\<rfloor> = n"
    unfolding assms(1) by linarith
  then show ?thesis
    using assms by (simp add: round_half_even_def Let_def)
qed

subsection \<open>The exponent\<close>

lemma powi_add: "(2 :: rat) powi (a + b) = 2 powi a * 2 powi b"
  by (simp add: power_int_add)

lemma powi_mono: "a \<le> b \<Longrightarrow> (2 :: rat) powi a \<le> 2 powi b"
  by (rule power_int_increasing) simp_all

lemma powi_pos: "0 < (2 :: rat) powi a"
  by simp

lemma bitlen_powi:
  assumes "0 < p"
  shows "(2 :: rat) powi (bitlen p - 1) \<le> of_int p" and "of_int p < (2 :: rat) powi bitlen p"
proof -
  have b: "2 ^ nat (bitlen p - 1) \<le> p" "p < 2 ^ nat (bitlen p)"
    using bitlen_bounds [OF assms] by simp_all
  have pos: "1 \<le> bitlen p"
    using assms by (simp add: bitlen_alt_def)
  have "(of_int (2 ^ nat (bitlen p - 1)) :: rat) \<le> of_int p"
    using b(1) by (simp only: of_int_le_iff)
  then show "(2 :: rat) powi (bitlen p - 1) \<le> of_int p"
    using pos by (simp add: power_int_def)
  have "(of_int p :: rat) < of_int (2 ^ nat (bitlen p))"
    using b(2) by (simp only: of_int_less_iff)
  then show "of_int p < (2 :: rat) powi bitlen p"
    using pos by (simp add: power_int_def)
qed

lemma ilog2_bounds:
  assumes "0 < x"
  shows "2 powi ilog2 x \<le> x" and "x < 2 powi (ilog2 x + 1)"
proof -
  obtain p q where pq: "quotient_of x = (p, q)" by (cases "quotient_of x")
  have q: "0 < q" using pq by (rule quotient_of_denom_pos)
  have x: "x = of_int p / of_int q" using pq by (rule quotient_of_div)
  have p: "0 < p"
    using assms q unfolding x by (simp add: zero_less_divide_iff)
  let ?d = "bitlen p - bitlen q"
  have qr: "(0 :: rat) < of_int q" using q by simp
  have lo: "2 powi (?d - 1) \<le> x"
  proof -
    have "2 powi (?d - 1) * of_int q \<le> 2 powi (?d - 1) * (2 :: rat) powi bitlen q"
      using bitlen_powi(2) [OF q] by (intro mult_left_mono) simp_all
    also have "\<dots> = 2 powi (bitlen p - 1)"
      by (simp add: powi_add [symmetric])
    also have "\<dots> \<le> of_int p" by (rule bitlen_powi(1) [OF p])
    finally show ?thesis
      unfolding x using qr by (simp add: pos_le_divide_eq)
  qed
  have hi: "x < 2 powi (?d + 1)"
  proof -
    have "of_int p < (2 :: rat) powi bitlen p" by (rule bitlen_powi(2) [OF p])
    also have "\<dots> = 2 powi (?d + 1) * 2 powi (bitlen q - 1)"
      by (simp add: powi_add [symmetric])
    also have "\<dots> \<le> 2 powi (?d + 1) * of_int q"
      using bitlen_powi(1) [OF q] by (intro mult_left_mono) simp_all
    finally show ?thesis
      unfolding x using qr by (simp add: pos_divide_less_eq)
  qed
  have il: "ilog2 x = (if 2 powi ?d \<le> x then ?d else ?d - 1)"
    by (simp add: ilog2_def pq Let_def)
  show "2 powi ilog2 x \<le> x"
    using lo by (simp add: il)
  show "x < 2 powi (ilog2 x + 1)"
    using hi by (auto simp: il not_le)
qed

lemma ilog2_unique:
  assumes "2 powi e \<le> x" and "x < 2 powi (e + 1)"
  shows "ilog2 x = e"
proof -
  have pos: "0 < x"
    using assms(1) powi_pos [of e] by linarith
  note b = ilog2_bounds [OF pos]
  have "\<not> e + 1 \<le> ilog2 x"
  proof
    assume "e + 1 \<le> ilog2 x"
    then have "(2 :: rat) powi (e + 1) \<le> 2 powi ilog2 x" by (rule powi_mono)
    with b(1) assms(2) show False by linarith
  qed
  moreover have "\<not> ilog2 x + 1 \<le> e"
  proof
    assume "ilog2 x + 1 \<le> e"
    then have "(2 :: rat) powi (ilog2 x + 1) \<le> 2 powi e" by (rule powi_mono)
    with b(2) assms(1) show False by linarith
  qed
  ultimately show ?thesis by linarith
qed


subsection \<open>Rounding is monotone\<close>



lemma round_mag_upper:
  assumes "0 < x"
  shows "round_mag x \<le> 2 powi (ulp_exp x + 53)"
proof -
  let ?q = "ulp_exp x"
  have "ilog2 x + 1 \<le> ?q + 53" by (simp add: ulp_exp_def)
  then have "(2 :: rat) powi (ilog2 x + 1) \<le> 2 powi (?q + 53)" by (rule powi_mono)
  with ilog2_bounds(2) [OF assms] have "x \<le> 2 powi (?q + 53)" by linarith
  also have "\<dots> = of_int (2 ^ 53) * 2 powi ?q" by (simp add: powi_add)
  finally have "x / 2 powi ?q \<le> of_int (2 ^ 53)"
    by (simp add: pos_divide_le_eq)
  then have "round_half_even (x / 2 powi ?q) \<le> 2 ^ 53"
    by (rule round_half_even_le)
  then have "(of_int (round_half_even (x / 2 powi ?q)) :: rat) \<le> of_int (2 ^ 53)"
    by (simp only: of_int_le_iff)
  then have "round_mag x \<le> of_int (2 ^ 53) * 2 powi ?q"
    unfolding round_mag_def by (intro mult_right_mono) simp_all
  also have "\<dots> = 2 powi (?q + 53)" by (simp add: powi_add)
  finally show ?thesis .
qed



lemma round64_pos:
  assumes "0 < x"
  shows "round64 x = (if 2 powi 1024 \<le> round_mag x then PInf else Fin (round_mag x))"
  using assms by (simp add: round64_def)





subsection \<open>Computing a rounding\<close>

text \<open>
  A rounding is computed from its exponent \<open>e\<close> and its integer significand \<open>n\<close>: the
  number lies in \<open>[2\<^sup>e, 2\<^sup>e\<^sup>+\<^sup>1)\<close> and its quotient by the spacing is nearer to \<open>n\<close> than to
  any other integer, or is \<open>n + 1/2\<close> with \<open>n\<close> even.
\<close>

lemma round64_from_significand:
  assumes e: "2 powi e \<le> x" "x < 2 powi (e + 1)" and range: "- 1022 \<le> e" "e \<le> 1022"
    and n: "round_half_even (x / 2 powi (e - 52)) = n"
    and y: "y = of_int n * 2 powi (e - 52)"
  shows "round64 x = Fin y"
proof -
  have pos: "0 < x"
    using e(1) powi_pos [of e] by linarith
  have il: "ilog2 x = e" using e by (rule ilog2_unique)
  have u: "ulp_exp x = e - 52" using range by (simp add: ulp_exp_def il)
  have rm: "round_mag x = y" by (simp add: round_mag_def u n y)
  have "round_mag x \<le> 2 powi (ulp_exp x + 53)" using pos by (rule round_mag_upper)
  also have "\<dots> \<le> (2 :: rat) powi 1023" unfolding u using range by (intro powi_mono) simp
  also have "\<dots> < (2 :: rat) powi 1024" by (intro power_int_strict_increasing) simp_all
  finally have "\<not> 2 powi 1024 \<le> round_mag x" by simp
  then show ?thesis
    using pos rm by (simp add: round64_pos)
qed

lemma round64_nearest:
  assumes "2 powi e \<le> x" "x < 2 powi (e + 1)" "- 1022 \<le> e" "e \<le> 1022"
    and "\<bar>x / 2 powi (e - 52) - of_int n\<bar> < 1 / 2"
    and "y = of_int n * 2 powi (e - 52)"
  shows "round64 x = Fin y"
  using assms(1-4) round_half_even_nearest [OF assms(5)] assms(6)
  by (rule round64_from_significand)

lemma round64_tie:
  assumes "2 powi e \<le> x" "x < 2 powi (e + 1)" "- 1022 \<le> e" "e \<le> 1022"
    and "x / 2 powi (e - 52) = of_int n + 1 / 2" and "even n"
    and "y = of_int n * 2 powi (e - 52)"
  shows "round64 x = Fin y"
  using assms(1-4) round_half_even_tie [OF assms(5) assms(6)] assms(7)
  by (rule round64_from_significand)

lemma round64_exact:
  assumes "2 powi e \<le> x" "x < 2 powi (e + 1)" "- 1022 \<le> e" "e \<le> 1022"
    and "x / 2 powi (e - 52) = of_int n"
  shows "round64 x = Fin x"
proof -
  have "\<bar>x / 2 powi (e - 52) - of_int n\<bar> < 1 / 2"
    using assms(5) by simp
  moreover have "x = of_int n * 2 powi (e - 52)"
    using assms(5) by (simp add: field_simps)
  ultimately show ?thesis
    using assms(1-4) by (intro round64_nearest [where e = e and n = n]) simp_all
qed

lemma round64_examples:
  "round64 1 = Fin 1" "round64 2 = Fin 2" "round64 4 = Fin 4" "round64 6 = Fin 6"
  "round64 (1 / 2) = Fin (1 / 2)"
  "round64 (3 / 10) = Fin (5404319552844595 / 18014398509481984)"
  "round64 (9 / 20) = Fin (8106479329266893 / 18014398509481984)"
  "round64 (3 / 5) = Fin (5404319552844595 / 9007199254740992)"
proof -
  show "round64 1 = Fin 1"
    by (rule round64_exact [where e = 0 and n = "2 ^ 52"]) simp_all
  show "round64 2 = Fin 2"
    by (rule round64_exact [where e = 1 and n = "2 ^ 52"]) simp_all
  show "round64 4 = Fin 4"
    by (rule round64_exact [where e = 2 and n = "2 ^ 52"]) simp_all
  show "round64 6 = Fin 6"
    by (rule round64_exact [where e = 2 and n = "3 * 2 ^ 51"]) simp_all
  show "round64 (1 / 2) = Fin (1 / 2)"
    by (rule round64_exact [where e = "- 1" and n = "2 ^ 52"]) simp_all
  show "round64 (3 / 10) = Fin (5404319552844595 / 18014398509481984)"
    by (rule round64_nearest [where e = "- 2" and n = 5404319552844595]) simp_all
  show "round64 (9 / 20) = Fin (8106479329266893 / 18014398509481984)"
    by (rule round64_nearest [where e = "- 2" and n = 8106479329266893]) simp_all
  show "round64 (3 / 5) = Fin (5404319552844595 / 9007199254740992)"
    by (rule round64_nearest [where e = "- 1" and n = 5404319552844595]) simp_all
qed

section \<open>Colour adjustment in binary64\<close>

lemma float_0_3_value: "float_0_3 = Fin (5404319552844595 / 18014398509481984)"
  by (simp add: float_0_3_def round64_examples)

lemma adjust_color_f64_finite:
  assumes "max (max r g) b \<noteq> 0"
  shows "adjust_color_f64 (Fin r, Fin g, Fin b, a) =
     (fadd64 (fmul64 (round64 (r / max (max r g) b)) float_0_3) float_0_3,
      fadd64 (fmul64 (round64 (g / max (max r g) b)) float_0_3) float_0_3,
      fadd64 (fmul64 (round64 (b / max (max r g) b)) float_0_3) float_0_3, a)"
  using assms
  by (simp add: adjust_color_f64_def channel_max_def div_rgb_f64_def mul_rgb_f64_def
      add_rgb_f64_def fdiv64_def)

lemma alpha_adjust_color_f64: "snd (snd (snd (adjust_color_f64 c))) = snd (snd (snd c))"
  by (cases c)
    (simp add: adjust_color_f64_def channel_max_def div_rgb_f64_def mul_rgb_f64_def
      add_rgb_f64_def)

text \<open>The two channel values of the example: from a quotient of 1/2 and from one of 1.\<close>

lemma channel_half:
  "fadd64 (fmul64 (Fin (1 / 2)) float_0_3) float_0_3 = Fin (2026619832316723 / 4503599627370496)"
proof -
  have m: "round64 (5404319552844595 / 36028797018963968) = Fin (5404319552844595 / 36028797018963968)"
    by (rule round64_exact [where e = "- 3" and n = 5404319552844595]) simp_all
  have a: "round64 (16212958658533785 / 36028797018963968) = Fin (2026619832316723 / 4503599627370496)"
    by (rule round64_tie [where e = "- 2" and n = 8106479329266892]) simp_all
  have "fmul64 (Fin (1 / 2)) float_0_3 = Fin (5404319552844595 / 36028797018963968)"
    using m by (simp add: fmul64_def float_0_3_value)
  then show ?thesis
    using a by (simp add: fadd64_def float_0_3_value)
qed

lemma channel_one:
  "fadd64 (fmul64 (Fin 1) float_0_3) float_0_3 = Fin (5404319552844595 / 9007199254740992)"
proof -
  have m: "round64 (5404319552844595 / 18014398509481984) = Fin (5404319552844595 / 18014398509481984)"
    by (rule round64_exact [where e = "- 2" and n = 5404319552844595]) simp_all
  have a: "round64 (5404319552844595 / 9007199254740992) = Fin (5404319552844595 / 9007199254740992)"
    by (rule round64_exact [where e = "- 1" and n = 5404319552844595]) simp_all
  have "fmul64 (Fin 1) float_0_3 = Fin (5404319552844595 / 18014398509481984)"
    using m by (simp add: fmul64_def float_0_3_value)
  then show ?thesis
    using a by (simp add: fadd64_def float_0_3_value)
qed

lemma adjust_color_f64_example:
  "adjust_color_f64 (Fin 2, Fin 4, Fin 4, Fin 1) =
     (Fin (2026619832316723 / 4503599627370496), Fin (5404319552844595 / 9007199254740992),
      Fin (5404319552844595 / 9007199254740992), Fin 1)"
proof -
  have "max (max (2 :: rat) 4) 4 \<noteq> 0" by simp
  from adjust_color_f64_finite [OF this, of "Fin 1"] show ?thesis
    by (simp add: round64_examples channel_half channel_one)
qed

text \<open>
  C4. On a float64 colour whose three colour channels are finite with a maximum other than
  zero, each of them is divided by that maximum, multiplied by 0.3 and increased by 0.3,
  every step rounded to binary64 and 0.3 being the double nearest to three tenths. The
  alpha channel of every colour is returned as it is. On (2, 4, 4, 1.0) the result is
  (0.44999999999999996, 0.6, 0.6, 1.0): the first channel is
  \<open>2026619832316723 / 2\<^sup>5\<^sup>2\<close>, the double below the one nearest to 0.45, because the sum
  of 0.15 and 0.3 lies half way between two doubles; the second and third are the double
  nearest to 0.6.
\<close>

theorem adjust_color_f64_formula:
  "(\<forall>r g b a. max (max r g) b \<noteq> 0 \<longrightarrow>
      adjust_color_f64 (Fin r, Fin g, Fin b, a) =
        (fadd64 (fmul64 (round64 (r / max (max r g) b)) float_0_3) float_0_3,
         fadd64 (fmul64 (round64 (g / max (max r g) b)) float_0_3) float_0_3,
         fadd64 (fmul64 (round64 (b / max (max r g) b)) float_0_3) float_0_3, a))
   \<and> (\<forall>c. snd (snd (snd (adjust_color_f64 c))) = snd (snd (snd c)))
   \<and> float_0_3 = round64 (3 / 10)
   \<and> adjust_color_f64 (Fin 2, Fin 4, Fin 4, Fin 1) =
        (Fin (2026619832316723 / 4503599627370496), round64 (6 / 10), round64 (6 / 10), Fin 1)
   \<and> round64 (45 / 100) = Fin (2026619832316723 / 4503599627370496 + 1 / 2 ^ 54)"
proof (intro conjI allI impI)
  show "adjust_color_f64 (Fin 2, Fin 4, Fin 4, Fin 1) =
      (Fin (2026619832316723 / 4503599627370496), round64 (6 / 10), round64 (6 / 10), Fin 1)"
    by (simp add: adjust_color_f64_example round64_examples)
  show "round64 (45 / 100) = Fin (2026619832316723 / 4503599627370496 + 1 / 2 ^ 54)"
    by (simp add: round64_examples)
  show "float_0_3 = round64 (3 / 10)"
    by (simp add: float_0_3_def)
qed (simp_all add: adjust_color_f64_finite alpha_adjust_color_f64)

theorem adjust_color_f64_formula_witness:
  "max (max (4 :: rat) 4) 4 \<noteq> 0
   \<and> adjust_color_f64 (Fin 4, Fin 4, Fin 4, Fin 1) =
       (Fin (5404319552844595 / 9007199254740992), Fin (5404319552844595 / 9007199254740992),
        Fin (5404319552844595 / 9007199254740992), Fin 1)"
proof -
  have "max (max (4 :: rat) 4) 4 \<noteq> 0" by simp
  from adjust_color_f64_formula [THEN conjunct1, rule_format, OF this, of "Fin 1"]
  show ?thesis
    by (simp add: round64_examples channel_one)
qed

theorem adjust_color_f64_counterexample:
  "adjust_color_f64 (Fin 2, Fin 4, Fin 4, Fin 1)
     \<noteq> (round64 (45 / 100), round64 (6 / 10), round64 (6 / 10), Fin 1)
   \<and> adjust_color_f64 (Fin 2, Fin 4, Fin 4, Fin 1)
     \<noteq> (Fin (45 / 100), Fin (6 / 10), Fin (6 / 10), Fin 1)
   \<and> adjust_color_f64 (Fin 2, Fin 4, Fin 4, Fin 1) =
       (Fin (2026619832316723 / 4503599627370496), Fin (5404319552844595 / 9007199254740992),
        Fin (5404319552844595 / 9007199254740992), Fin 1)"
  by (simp add: adjust_color_f64_example round64_examples)

section \<open>Placement in binary64\<close>











end
